theory Spec2Isabelle
  imports Main "HOL-Library.Word"
begin

section \<open>Go values used by the keystore\<close>

type_synonym byte = "8 word"

text \<open>
  A Go slice is a header (pointer, length, capacity) into memory shared with every other
  slice of the same backing array. The nil slice has a nil pointer (address 0) and
  length and capacity 0; \<open>s == nil\<close> tests the pointer.
\<close>

record slice =
  s_ptr :: nat
  s_len :: nat
  s_cap :: nat

definition nil_slice :: slice where
  "nil_slice = \<lparr>s_ptr = 0, s_len = 0, s_cap = 0\<rparr>"

definition is_nil :: "slice \<Rightarrow> bool" where
  "is_nil s = (s_ptr s = 0)"

text \<open>
  The heap: byte-addressed memory and the allocation frontier \<open>brk\<close>; every allocated
  byte lies below \<open>brk\<close>, and a new array is taken at \<open>brk\<close>.
\<close>

record heap =
  mem :: "nat \<Rightarrow> byte"
  brk :: nat

text \<open>The bytes \<open>s[0], ..., s[len(s)-1]\<close>.\<close>

definition read_slice :: "heap \<Rightarrow> slice \<Rightarrow> byte list" where
  "read_slice h s = map (\<lambda>i. mem h (s_ptr s + i)) [0..<s_len s]"

definition all_zero :: "heap \<Rightarrow> slice \<Rightarrow> bool" where
  "all_zero h s = list_all (\<lambda>b. b = 0) (read_slice h s)"

text \<open>
  The zeroing loop of the source, \<^verbatim>\<open>for i := 0; i < len(s); i++ { s[i] = 0 }\<close>:
  one store per index.
\<close>

definition zero_slice :: "slice \<Rightarrow> heap \<Rightarrow> heap" where
  "zero_slice s h = h\<lparr>mem := fold (\<lambda>i m. m(s_ptr s + i := 0)) [0..<s_len s] (mem h)\<rparr>"

fun store_bytes :: "nat \<Rightarrow> byte list \<Rightarrow> (nat \<Rightarrow> byte) \<Rightarrow> (nat \<Rightarrow> byte)" where
  "store_bytes p [] m = m"
| "store_bytes p (b # bs) m = store_bytes (Suc p) bs (m(p := b))"

text \<open>A new array of capacity \<open>c\<close> at the allocation frontier, holding \<open>bs\<close>.\<close>

definition alloc :: "byte list \<Rightarrow> nat \<Rightarrow> heap \<Rightarrow> slice \<times> heap" where
  "alloc bs c h =
     (\<lparr>s_ptr = brk h, s_len = length bs, s_cap = c\<rparr>,
      \<lparr>mem = store_bytes (brk h) bs (mem h), brk = brk h + c\<rparr>)"

text \<open>
  The builtin \<^verbatim>\<open>append(dst, src...)\<close>: when the capacity of \<open>dst\<close> suffices the
  elements are copied behind \<open>dst\<close> in its own backing array; otherwise a new array is
  allocated, the old elements and the new ones are copied there, and the old array is
  left as it was. The elements of \<open>src\<close> are read before any store (memmove). The
  runtime may round the new capacity up; nothing in this package reads it.
\<close>

definition append_slice :: "slice \<Rightarrow> slice \<Rightarrow> heap \<Rightarrow> slice \<times> heap" where
  "append_slice dst src h =
     (let elems = read_slice h src in
      if s_len dst + s_len src \<le> s_cap dst then
        (dst\<lparr>s_len := s_len dst + s_len src\<rparr>,
         h\<lparr>mem := store_bytes (s_ptr dst + s_len dst) elems (mem h)\<rparr>)
      else alloc (read_slice h dst @ elems) (s_len dst + s_len src) h)"

datatype go_error = Errorf string

text \<open>\<^verbatim>\<open>os.Stat\<close> returns a file info (discarded by the caller) and an error.\<close>

datatype stat_error = ErrNotExist | ErrOther

fun IsNotExist :: "stat_error option \<Rightarrow> bool" where
  "IsNotExist (Some ErrNotExist) = True"
| "IsNotExist _ = False"

text \<open>
  What a call of \<open>KeypairFromAddress\<close> does: it returns its three results, or it panics
  with a nil dereference (a method called on a nil interface value).
\<close>

datatype ('kp, 'enc) outcome =
    Return "'kp option" "'enc option" "go_error option"
  | PanicNilDereference

section \<open>The functions and packages the file calls\<close>

text \<open>
  \<open>insecureKeypairFromAddress\<close>, \<open>GetPassword\<close> and \<open>ReadFromFileAndDecrypt\<close> (package
  keystore), \<open>hash.HashPasswordIteratively\<close>, the \<open>DeleteKeyPair\<close> method of
  \<open>crypto.Keypair\<close> and package \<open>os\<close> are not defined in keystore.go. They are the
  parameters of the model. A keypair is an interface value (\<open>None\<close> for nil), an
  enclave a pointer (\<open>None\<close> for nil). Each of them is taken to return.
\<close>

record ('kp, 'enc) env =
  insecureKeypairFromAddress ::
    "string \<Rightarrow> string \<Rightarrow> heap \<Rightarrow> ('kp option \<times> 'enc option \<times> go_error option) \<times> heap"
  Stat :: "string \<Rightarrow> stat_error option"
  Getenv :: "string \<Rightarrow> string"
  GetPassword :: "string \<Rightarrow> heap \<Rightarrow> slice \<times> heap"
  HashPasswordIteratively ::
    "slice \<Rightarrow> heap \<Rightarrow> (slice \<times> slice \<times> go_error option) \<times> heap"
  ReadFromFileAndDecrypt ::
    "string \<Rightarrow> slice \<Rightarrow> string \<Rightarrow> heap \<Rightarrow> ('kp option \<times> 'enc option \<times> go_error option) \<times> heap"
  DeleteKeyPair :: "'kp \<Rightarrow> heap \<Rightarrow> heap"

text \<open>
  The calls a run makes, in order, with their arguments; a byte slice argument is
  recorded by the bytes it holds when the call is made.
\<close>

datatype call =
    Call_insecureKeypairFromAddress string string
  | Call_Stat string
  | Call_Getenv string
  | Call_GetPassword string
  | Call_HashPasswordIteratively "byte list"
  | Call_ReadFromFileAndDecrypt string "byte list" string
  | Call_DeleteKeyPair

section \<open>keystore.go\<close>


definition keyMapping :: "string \<rightharpoonup> string" where
  "keyMapping = [''ethereum'' \<mapsto> ''secp256k1'', ''substrate'' \<mapsto> ''sr25519'']"

text \<open>Indexing a Go map: the zero value (the empty string) for a key that is absent.\<close>

definition map_index :: "(string \<rightharpoonup> string) \<Rightarrow> string \<Rightarrow> string" where
  "map_index m k = (case m k of None \<Rightarrow> '''' | Some v \<Rightarrow> v)"

text \<open>
  \<open>KeypairFromAddress\<close>, statement by statement. The result is what the call does, the
  heap it leaves and the calls it made.
\<close>

definition KeypairFromAddress ::
  "('kp, 'enc) env \<Rightarrow> string \<Rightarrow> string \<Rightarrow> string \<Rightarrow> bool \<Rightarrow> heap
     \<Rightarrow> ('kp, 'enc) outcome \<times> heap \<times> call list" where
  "KeypairFromAddress E addr chainType path insecure h0 =
    (if insecure then
       (case insecureKeypairFromAddress E path chainType h0 of
          ((kp, key, err), h1) \<Rightarrow>
            (Return kp key err, h1, [Call_insecureKeypairFromAddress path chainType]))
     else
       let path1 = path @ ''/'' @ addr @ ''.key'';
           t1 = [Call_Stat path1]
       in
       if IsNotExist (Stat E path1) then
         (Return None None (Some (Errorf (''key file not found: '' @ path1))), h0, t1)
       else
         let pswd0 = nil_slice;
             prompt = ''Enter password for key '' @ path1 @ '':'';
             (pswd, h1, t2) =
               (if is_nil pswd0 then
                  (case GetPassword E prompt h0 of
                     (p, h) \<Rightarrow> (p, h, t1 @ [Call_GetPassword prompt]))
                else (pswd0, h0, t1));
             ((hshPwd, salt, err), h2) = HashPasswordIteratively E pswd h1;
             t3 = t2 @ [Call_HashPasswordIteratively (read_slice h1 pswd)];
             h3 = zero_slice pswd h2
         in
         (case err of
            Some e \<Rightarrow>
              let h4 = zero_slice hshPwd h3;
                  h5 = zero_slice salt h4
              in (Return None None (Some e), h5, t3)
          | None \<Rightarrow>
              let (hshPwd1, h4) = append_slice hshPwd salt h3;
                  h5 = zero_slice salt h4;
                  keytype = map_index keyMapping chainType;
                  ((kp, key, err1), h6) = ReadFromFileAndDecrypt E path1 hshPwd1 keytype h5;
                  t4 = t3 @ [Call_ReadFromFileAndDecrypt path1 (read_slice h5 hshPwd1) keytype];
                  h7 = zero_slice hshPwd1 h6
              in
              (case err1 of
                 Some e \<Rightarrow>
                   (case kp of
                      None \<Rightarrow> (PanicNilDereference, h7, t4)
                    | Some k \<Rightarrow>
                        (Return None None (Some e), DeleteKeyPair E k h7,
                         t4 @ [Call_DeleteKeyPair]))
               | None \<Rightarrow> (Return kp key None, h7, t4))))"

text \<open>The three components of a run.\<close>

definition outcome_of :: "('kp, 'enc) outcome \<times> heap \<times> call list \<Rightarrow> ('kp, 'enc) outcome" where
  "outcome_of r = fst r"

definition heap_of :: "('kp, 'enc) outcome \<times> heap \<times> call list \<Rightarrow> heap" where
  "heap_of r = fst (snd r)"

definition calls_of :: "('kp, 'enc) outcome \<times> heap \<times> call list \<Rightarrow> call list" where
  "calls_of r = snd (snd r)"

text \<open>Whether a call is the decryption of the key file.\<close>

fun is_decrypt :: "call \<Rightarrow> bool" where
  "is_decrypt (Call_ReadFromFileAndDecrypt p k t) = True"
| "is_decrypt _ = False"

text \<open>
  Two byte ranges \<open>[p, p + n)\<close> and \<open>[q, q + m)\<close> that share no byte.
\<close>

definition bytes_apart :: "nat \<Rightarrow> nat \<Rightarrow> nat \<Rightarrow> nat \<Rightarrow> bool" where
  "bytes_apart p n q m = (n = 0 \<or> m = 0 \<or> p + n \<le> q \<or> q + m \<le> p)"

text \<open>
  The buffers a run obtains are separate allocations: the password shares no byte with
  the hash or the salt, the salt shares no byte with the backing array of the hash (up
  to its capacity), and the salt lies in allocated memory, below the frontier where
  \<open>append\<close> takes a new array.
\<close>

definition separate_buffers :: "heap \<Rightarrow> slice \<Rightarrow> slice \<Rightarrow> slice \<Rightarrow> bool" where
  "separate_buffers h pswd hshPwd salt =
     (bytes_apart (s_ptr pswd) (s_len pswd) (s_ptr hshPwd) (s_len hshPwd) \<and>
      bytes_apart (s_ptr pswd) (s_len pswd) (s_ptr salt) (s_len salt) \<and>
      bytes_apart (s_ptr salt) (s_len salt) (s_ptr hshPwd) (s_cap hshPwd) \<and>
      s_ptr salt + s_len salt \<le> brk h)"

section \<open>Key derivation as the specification describes it\<close>

text \<open>
  Modelled from the spec: the error tag DerivationError of sections 4.2 and 7, which
  keystore.go does not define.
\<close>

definition DerivationError :: go_error where
  "DerivationError = Errorf ''DerivationError''"

text \<open>
  Modelled from the spec: \<open>hash.HashPasswordIteratively\<close>, which is not defined in
  keystore.go. Section 4.2 (KeyDerivation): "derive(password: bytes) -> (derivedKey: bytes,
  salt: bytes) ... Fails with DerivationError if the password is empty". The buffers
  returned, and the error for a password that is not empty, are those of the underlying
  derivation \<open>kdf\<close>, which the specification leaves open.
\<close>

definition HashPasswordIteratively_spec ::
  "(slice \<Rightarrow> heap \<Rightarrow> (slice \<times> slice \<times> go_error option) \<times> heap)
     \<Rightarrow> slice \<Rightarrow> heap \<Rightarrow> (slice \<times> slice \<times> go_error option) \<times> heap" where
  "HashPasswordIteratively_spec kdf pswd h =
     (case kdf pswd h of
        ((derivedKey, salt, err), h') \<Rightarrow>
          if s_len pswd = 0 then ((derivedKey, salt, Some DerivationError), h')
          else ((derivedKey, salt, err), h'))"

section \<open>Key file decryption as the specification describes it\<close>

text \<open>
  Modelled from the spec: the error tag UnsupportedKeyType of sections 4.4 and 7, which
  keystore.go does not define.
\<close>

definition UnsupportedKeyType :: go_error where
  "UnsupportedKeyType = Errorf ''UnsupportedKeyType''"

text \<open>
  Modelled from the spec: \<open>ReadFromFileAndDecrypt\<close>, which is not defined in keystore.go.
  Section 3: the key type tag is one of secp256k1, sr25519. Section 4.4: "unknown
  KeyTypeTag values fail with UnsupportedKeyType rather than being silently ignored".
  Section 6: the core "must reject tags without a registered implementation". Section
  4.5: on failure "no partial KeyPair is ever returned", so the keypair and the enclave
  returned with the error are nil. For a registered tag the result is that of the
  underlying decryption \<open>decrypt\<close>, which the specification leaves open.
\<close>

definition ReadFromFileAndDecrypt_spec ::
  "(string \<Rightarrow> slice \<Rightarrow> string \<Rightarrow> heap
      \<Rightarrow> ('kp option \<times> 'enc option \<times> go_error option) \<times> heap)
     \<Rightarrow> string \<Rightarrow> slice \<Rightarrow> string \<Rightarrow> heap
     \<Rightarrow> ('kp option \<times> 'enc option \<times> go_error option) \<times> heap" where
  "ReadFromFileAndDecrypt_spec decrypt path key keytype h =
     (if keytype = ''secp256k1'' \<or> keytype = ''sr25519'' then decrypt path key keytype h
      else ((None, None, Some UnsupportedKeyType), h))"

section \<open>Sample collaborators\<close>

text \<open>
  Concrete stand-ins for the functions keystore.go calls, on which the theorems below
  are run. \<open>fresh_hash H c S err\<close> returns the hash bytes \<open>H\<close> in a new array of
  capacity \<open>c\<close>, the salt \<open>S\<close> in a new array of its own, and \<open>err\<close>.
  \<open>sample_env st pw hashf dec\<close>: \<open>os.Stat\<close> returns \<open>st\<close>, the password typed is
  \<open>pw\<close>, the hash function is \<open>hashf\<close>, and decryption with key type \<open>t\<close> returns
  \<open>dec t\<close>.
\<close>

definition heap0 :: heap where
  "heap0 = \<lparr>mem = (\<lambda>_. 0), brk = 1\<rparr>"

definition fresh_hash ::
  "byte list \<Rightarrow> nat \<Rightarrow> byte list \<Rightarrow> go_error option
     \<Rightarrow> slice \<Rightarrow> heap \<Rightarrow> (slice \<times> slice \<times> go_error option) \<times> heap" where
  "fresh_hash H c S err pswd h =
     (case alloc H c h of
        (hs, h1) \<Rightarrow> (case alloc S (length S) h1 of (sl, h2) \<Rightarrow> ((hs, sl, err), h2)))"

text \<open>
  \<open>packed_hash H S\<close> returns the hash and the salt as two slices of one array:
  \<^verbatim>\<open>buf := make([]byte, n); return buf[:k], buf[k:], nil\<close>. The hash has the whole
  array as its capacity, and the salt lies in the spare capacity of the hash.
\<close>

definition packed_hash ::
  "byte list \<Rightarrow> byte list \<Rightarrow> slice \<Rightarrow> heap \<Rightarrow> (slice \<times> slice \<times> go_error option) \<times> heap" where
  "packed_hash H S pswd h =
     (case alloc (H @ S) (length H + length S) h of
        (buf, h1) \<Rightarrow>
          ((buf\<lparr>s_len := length H\<rparr>,
            \<lparr>s_ptr = s_ptr buf + length H, s_len = length S, s_cap = length S\<rparr>, None), h1))"

definition sample_env ::
  "stat_error option \<Rightarrow> byte list
     \<Rightarrow> (slice \<Rightarrow> heap \<Rightarrow> (slice \<times> slice \<times> go_error option) \<times> heap)
     \<Rightarrow> (string \<Rightarrow> nat option \<times> nat option \<times> go_error option) \<Rightarrow> (nat, nat) env" where
  "sample_env st pw hashf dec =
     \<lparr>insecureKeypairFromAddress = (\<lambda>p c h. ((Some 1, None, None), h)),
      Stat = (\<lambda>p. st),
      Getenv = (\<lambda>k. []),
      GetPassword = (\<lambda>prompt h. alloc pw (length pw) h),
      HashPasswordIteratively = hashf,
      ReadFromFileAndDecrypt = (\<lambda>p k t h. (dec t, h)),
      DeleteKeyPair = (\<lambda>k h. h)\<rparr>"

text \<open>
  A key file that exists, the password \<open>pw\<close>, a three-byte hash in an array of
  capacity three with a two-byte salt, and a decryption that succeeds.
\<close>

definition sample_ok :: "(nat, nat) env" where
  "sample_ok =
     sample_env None [0x70, 0x77] (fresh_hash [0xAA, 0xBB, 0xCC] 3 [0x11, 0x22] None)
       (\<lambda>t. (Some 5, Some 6, None))"

section \<open>Memory lemmas\<close>

lemma fold_zero_upt:
  "fold (\<lambda>i m. m(p + i := 0)) [0..<n] m =
     (\<lambda>a. if p \<le> a \<and> a < p + n then (0::byte) else m a)"
proof (induction n)
  case 0
  show ?case by (auto simp: fun_eq_iff)
next
  case (Suc n)
  then show ?case by (auto simp: fun_eq_iff)
qed

lemma mem_zero_slice:
  "mem (zero_slice s h) a =
     (if s_ptr s \<le> a \<and> a < s_ptr s + s_len s then 0 else mem h a)"
  by (simp add: zero_slice_def fold_zero_upt)

lemma brk_zero_slice: "brk (zero_slice s h) = brk h"
  by (simp add: zero_slice_def)

lemma all_zero_iff: "all_zero h s \<longleftrightarrow> (\<forall>i. i < s_len s \<longrightarrow> mem h (s_ptr s + i) = 0)"
  by (auto simp: all_zero_def read_slice_def list_all_iff)

lemma all_zero_zero_slice: "all_zero (zero_slice s h) s"
  by (simp add: all_zero_iff mem_zero_slice)

lemma all_zero_kept: "all_zero h t \<Longrightarrow> all_zero (zero_slice s h) t"
  by (simp add: all_zero_iff mem_zero_slice)

lemma store_bytes_apply:
  "store_bytes p bs m a = (if p \<le> a \<and> a < p + length bs then bs ! (a - p) else m a)"
proof (induction bs arbitrary: p m)
  case Nil
  show ?case by auto
next
  case (Cons b bs)
  show ?case by (auto simp: Cons.IH nth_Cons' Suc_diff_le)
qed

lemma read_slice_nth: "i < s_len s \<Longrightarrow> read_slice h s ! i = mem h (s_ptr s + i)"
  by (simp add: read_slice_def)

lemma length_read_slice: "length (read_slice h s) = s_len s"
  by (simp add: read_slice_def)

text \<open>
  What \<open>append\<close> followed by the zeroing of the salt leaves in the appended slice, when
  the buffers are separate allocations.
\<close>

lemma key_material:
  assumes sep: "separate_buffers h2 pswd hshPwd salt"
    and app: "append_slice hshPwd salt (zero_slice pswd h2) = (k, h4)"
  shows "read_slice (zero_slice salt h4) k = read_slice h2 hshPwd @ read_slice h2 salt"
proof -
  define h3 where "h3 = zero_slice pswd h2"
  have A: "mem h3 (s_ptr hshPwd + i) = mem h2 (s_ptr hshPwd + i)" if "i < s_len hshPwd" for i
    using sep that
    by (auto simp: h3_def mem_zero_slice separate_buffers_def bytes_apart_def)
  have B: "mem h3 (s_ptr salt + j) = mem h2 (s_ptr salt + j)" if "j < s_len salt" for j
    using sep that
    by (auto simp: h3_def mem_zero_slice separate_buffers_def bytes_apart_def)
  have C: "\<not> (s_ptr salt \<le> s_ptr hshPwd + i \<and> s_ptr hshPwd + i < s_ptr salt + s_len salt)"
    if "i < s_cap hshPwd" for i
    using sep that by (auto simp: separate_buffers_def bytes_apart_def)
  have D: "s_ptr salt + s_len salt \<le> brk h3"
    using sep by (simp add: separate_buffers_def h3_def brk_zero_slice)
  have H: "read_slice h3 hshPwd = read_slice h2 hshPwd"
    by (simp add: list_eq_iff_nth_eq length_read_slice read_slice_nth A)
  have S: "read_slice h3 salt = read_slice h2 salt"
    by (simp add: list_eq_iff_nth_eq length_read_slice read_slice_nth B)
  have app3: "append_slice hshPwd salt h3 = (k, h4)"
    using app by (simp add: h3_def)
  have len: "s_len k = s_len hshPwd + s_len salt"
    using app3 by (auto simp: append_slice_def alloc_def Let_def length_read_slice split: if_splits)
  have pt: "mem (zero_slice salt h4) (s_ptr k + i) = (read_slice h2 hshPwd @ read_slice h2 salt) ! i"
    if i: "i < s_len hshPwd + s_len salt" for i
  proof (cases "s_len hshPwd + s_len salt \<le> s_cap hshPwd")
    case True
    with app3 have k: "s_ptr k = s_ptr hshPwd"
      and h4: "mem h4 = store_bytes (s_ptr hshPwd + s_len hshPwd) (read_slice h2 salt) (mem h3)"
      by (auto simp: append_slice_def Let_def S)
    from i True have "i < s_cap hshPwd" by simp
    then have "mem (zero_slice salt h4) (s_ptr k + i) = mem h4 (s_ptr hshPwd + i)"
      using C [of i] by (auto simp: mem_zero_slice k)
    also have "\<dots> = (read_slice h2 hshPwd @ read_slice h2 salt) ! i"
    proof (cases "i < s_len hshPwd")
      case True
      then show ?thesis
        by (simp add: h4 store_bytes_apply nth_append length_read_slice read_slice_nth A)
    next
      case False
      with i show ?thesis
        by (simp add: h4 store_bytes_apply nth_append length_read_slice)
    qed
    finally show ?thesis .
  next
    case False
    with app3 have k: "s_ptr k = brk h3"
      and h4: "mem h4 = store_bytes (brk h3) (read_slice h2 hshPwd @ read_slice h2 salt) (mem h3)"
      by (auto simp: append_slice_def Let_def alloc_def H S)
    have "mem (zero_slice salt h4) (s_ptr k + i) = mem h4 (brk h3 + i)"
      using D by (simp add: mem_zero_slice k)
    also have "\<dots> = (read_slice h2 hshPwd @ read_slice h2 salt) ! i"
      using i by (simp add: h4 store_bytes_apply length_read_slice)
    finally show ?thesis .
  qed
  show ?thesis
    by (simp add: list_eq_iff_nth_eq length_read_slice len read_slice_nth pt)
qed

section \<open>The run past the key file check\<close>

text \<open>
  With \<open>insecure = false\<close> and a stat error that is not "does not exist", the run in terms
  of what \<open>GetPassword\<close> and \<open>HashPasswordIteratively\<close> returned.
\<close>

lemma KeypairFromAddress_secure:
  assumes "\<not> IsNotExist (Stat E (path @ ''/'' @ addr @ ''.key''))"
    and "GetPassword E (''Enter password for key '' @ path @ ''/'' @ addr @ ''.key'' @ '':'') h
           = (pswd, h1)"
    and "HashPasswordIteratively E pswd h1 = ((hshPwd, salt, err), h2)"
  shows "KeypairFromAddress E addr chainType path False h =
    (let path1 = path @ ''/'' @ addr @ ''.key'';
         t3 = [Call_Stat path1,
               Call_GetPassword (''Enter password for key '' @ path1 @ '':''),
               Call_HashPasswordIteratively (read_slice h1 pswd)];
         h3 = zero_slice pswd h2
     in case err of
          Some e \<Rightarrow> (Return None None (Some e), zero_slice salt (zero_slice hshPwd h3), t3)
        | None \<Rightarrow>
            (case append_slice hshPwd salt h3 of
               (hshPwd1, h4) \<Rightarrow>
                 (case ReadFromFileAndDecrypt E path1 hshPwd1 (map_index keyMapping chainType)
                         (zero_slice salt h4) of
                    ((kp, key, err1), h6) \<Rightarrow>
                      let t4 = t3 @ [Call_ReadFromFileAndDecrypt path1
                                 (read_slice (zero_slice salt h4) hshPwd1)
                                 (map_index keyMapping chainType)]
                      in case err1 of
                           Some e \<Rightarrow>
                             (case kp of
                                None \<Rightarrow> (PanicNilDereference, zero_slice hshPwd1 h6, t4)
                              | Some k \<Rightarrow>
                                  (Return None None (Some e),
                                   DeleteKeyPair E k (zero_slice hshPwd1 h6),
                                   t4 @ [Call_DeleteKeyPair]))
                         | None \<Rightarrow> (Return kp key None, zero_slice hshPwd1 h6, t4))))"
  using assms
  by (simp add: KeypairFromAddress_def Let_def is_nil_def nil_slice_def
      split: prod.splits option.splits)

text \<open>
  When the error of \<open>os.Stat\<close> is one that \<open>os.IsNotExist\<close> recognises, the run ends
  there: the error "key file not found", the heap untouched, no other call.
\<close>

lemma stat_not_exist_ends_run:
  assumes "IsNotExist (Stat E (path @ ''/'' @ addr @ ''.key''))"
  shows "KeypairFromAddress E addr chainType path False h =
           (Return None None
              (Some (Errorf (''key file not found: '' @ path @ ''/'' @ addr @ ''.key''))),
            h, [Call_Stat (path @ ''/'' @ addr @ ''.key'')])"
  using assms by (simp add: KeypairFromAddress_def Let_def)

section \<open>The claims\<close>

text \<open>
  C1. Claim: on every return of a call with \<open>insecure = false\<close> whose key file exists,
  the password buffer, the derived-key hash buffer and the salt buffer hold only zero
  bytes. The code leaves the hash in memory when \<open>append\<close> has to allocate: with a hash
  returned in an array of capacity 3 (its length), the appended key goes to a new array,
  only that copy is zeroed after decryption, and the buffer that
  \<open>HashPasswordIteratively\<close> returned still holds the hash when the call returns.
\<close>

theorem C1_hash_buffer_left_unzeroed:
  "fst (HashPasswordIteratively sample_ok \<lparr>s_ptr = 1, s_len = 2, s_cap = 2\<rparr>
          (snd (GetPassword sample_ok ''Enter password for key keys/0xABC.key:'' heap0))) =
     (\<lparr>s_ptr = 3, s_len = 3, s_cap = 3\<rparr>, \<lparr>s_ptr = 6, s_len = 2, s_cap = 2\<rparr>, None)
   \<and> outcome_of (KeypairFromAddress sample_ok ''0xABC'' ''ethereum'' ''keys'' False heap0) =
       Return (Some 5) (Some 6) None
   \<and> read_slice (heap_of (KeypairFromAddress sample_ok ''0xABC'' ''ethereum'' ''keys'' False heap0))
        \<lparr>s_ptr = 3, s_len = 3, s_cap = 3\<rparr> = [0xAA, 0xBB, 0xCC]
   \<and> \<not> all_zero (heap_of (KeypairFromAddress sample_ok ''0xABC'' ''ethereum'' ''keys'' False heap0))
        \<lparr>s_ptr = 3, s_len = 3, s_cap = 3\<rparr>"
  by (simp add: KeypairFromAddress_def sample_ok_def sample_env_def fresh_hash_def heap0_def
      alloc_def outcome_of_def heap_of_def zero_slice_def append_slice_def read_slice_def
      all_zero_def nil_slice_def is_nil_def Let_def keyMapping_def map_index_def upt_rec)

text \<open>
  C2. Claim: when \<open>ReadFromFileAndDecrypt\<close> returns an error, the error branch runs
  without faulting and returns nil, nil and that error, also when the keypair returned
  with the error is nil. The error branch calls \<open>kp.DeleteKeyPair()\<close> before it returns;
  on a nil keypair that is a nil dereference, and nothing is returned.
\<close>

theorem C2_nil_keypair_faults:
  "outcome_of (KeypairFromAddress
      (sample_env None [0x70, 0x77] (fresh_hash [0xAA, 0xBB, 0xCC] 3 [0x11, 0x22] None)
         (\<lambda>t. (None, None, Some (Errorf ''decryption failed''))))
      ''0xABC'' ''ethereum'' ''keys'' False heap0) = PanicNilDereference"
  by (simp add: KeypairFromAddress_def sample_env_def fresh_hash_def heap0_def
      alloc_def outcome_of_def append_slice_def nil_slice_def is_nil_def Let_def)

text \<open>
  C4. Claim: with \<open>insecure = false\<close>, when no key file exists for the address, the call
  returns a not-found error and \<open>GetPassword\<close> is never called. The source says the same
  ("Make sure key exists before prompting password"), but line 53 ends the run only for
  a stat error that \<open>os.IsNotExist\<close> recognises. When the key file is missing and
  \<open>os.Stat\<close> fails with another error (ENOTDIR when \<open>keys\<close> is a regular file,
  ENAMETOOLONG), the run goes on: it prompts for the password, derives the key and
  calls \<open>ReadFromFileAndDecrypt\<close>, and "key file not found" is not returned.
\<close>

theorem C4_missing_key_file_prompts:
  "\<not> IsNotExist (Stat (sample_env (Some ErrOther) [0x70, 0x77]
         (fresh_hash [0xAA, 0xBB, 0xCC] 3 [0x11, 0x22] None)
         (\<lambda>t. (None, None, Some (Errorf ''open keys/0xDEF.key: not a directory''))))
       ''keys/0xDEF.key'')
   \<and> calls_of (KeypairFromAddress
        (sample_env (Some ErrOther) [0x70, 0x77]
           (fresh_hash [0xAA, 0xBB, 0xCC] 3 [0x11, 0x22] None)
           (\<lambda>t. (None, None, Some (Errorf ''open keys/0xDEF.key: not a directory''))))
        ''0xDEF'' ''ethereum'' ''keys'' False heap0) =
       [Call_Stat ''keys/0xDEF.key'',
        Call_GetPassword ''Enter password for key keys/0xDEF.key:'',
        Call_HashPasswordIteratively [0x70, 0x77],
        Call_ReadFromFileAndDecrypt ''keys/0xDEF.key'' [0xAA, 0xBB, 0xCC, 0x11, 0x22]
          ''secp256k1'']
   \<and> outcome_of (KeypairFromAddress
        (sample_env (Some ErrOther) [0x70, 0x77]
           (fresh_hash [0xAA, 0xBB, 0xCC] 3 [0x11, 0x22] None)
           (\<lambda>t. (None, None, Some (Errorf ''open keys/0xDEF.key: not a directory''))))
        ''0xDEF'' ''ethereum'' ''keys'' False heap0) \<noteq>
       Return None None (Some (Errorf ''key file not found: keys/0xDEF.key''))"
  by (simp add: KeypairFromAddress_def sample_env_def fresh_hash_def heap0_def
      alloc_def outcome_of_def calls_of_def zero_slice_def append_slice_def read_slice_def
      nil_slice_def is_nil_def Let_def keyMapping_def map_index_def upt_rec)

text \<open>
  C5. \<open>KeypairFromAddress\<close> has no check of its own for an empty password: what
  \<open>GetPassword\<close> returns goes to \<open>HashPasswordIteratively\<close> as it is. With the key
  derivation of the specification, which fails with DerivationError on an empty
  password: when \<open>GetPassword\<close> returns an empty byte sequence, the empty password is
  passed to the derivation, the call returns nil, nil and DerivationError, and
  \<open>ReadFromFileAndDecrypt\<close> is not called.
\<close>

theorem C5_empty_password:
  assumes "\<not> IsNotExist (Stat E (path @ ''/'' @ addr @ ''.key''))"
    and "HashPasswordIteratively E = HashPasswordIteratively_spec kdf"
    and "GetPassword E (''Enter password for key '' @ path @ ''/'' @ addr @ ''.key'' @ '':'') h
           = (pswd, h1)"
    and "s_len pswd = 0"
  shows "outcome_of (KeypairFromAddress E addr chainType path False h) =
           Return None None (Some DerivationError)
     \<and> filter is_decrypt (calls_of (KeypairFromAddress E addr chainType path False h)) = []
     \<and> calls_of (KeypairFromAddress E addr chainType path False h) =
         [Call_Stat (path @ ''/'' @ addr @ ''.key''),
          Call_GetPassword (''Enter password for key '' @ path @ ''/'' @ addr @ ''.key'' @ '':''),
          Call_HashPasswordIteratively []]"
proof -
  obtain hshPwd salt err h2 where kdf: "kdf pswd h1 = ((hshPwd, salt, err), h2)"
    by (metis prod_cases3 surj_pair)
  have hs: "HashPasswordIteratively E pswd h1 = ((hshPwd, salt, Some DerivationError), h2)"
    using assms(2,4) kdf by (simp add: HashPasswordIteratively_spec_def)
  have "read_slice h1 pswd = []"
    using assms(4) by (simp add: read_slice_def)
  then show ?thesis
    using KeypairFromAddress_secure [OF assms(1) assms(3) hs, of chainType]
    by (simp add: Let_def outcome_of_def calls_of_def)
qed

theorem C5_empty_password_witness:
  "s_len (fst (GetPassword
       (sample_env None [] (HashPasswordIteratively_spec
          (fresh_hash [0xAA, 0xBB, 0xCC] 3 [0x11, 0x22] None)) (\<lambda>t. (Some 5, Some 6, None)))
       ''Enter password for key keys/0xABC.key:'' heap0)) = 0
   \<and> outcome_of (KeypairFromAddress
       (sample_env None [] (HashPasswordIteratively_spec
          (fresh_hash [0xAA, 0xBB, 0xCC] 3 [0x11, 0x22] None)) (\<lambda>t. (Some 5, Some 6, None)))
       ''0xABC'' ''ethereum'' ''keys'' False heap0) = Return None None (Some DerivationError)
   \<and> filter is_decrypt (calls_of (KeypairFromAddress
       (sample_env None [] (HashPasswordIteratively_spec
          (fresh_hash [0xAA, 0xBB, 0xCC] 3 [0x11, 0x22] None)) (\<lambda>t. (Some 5, Some 6, None)))
       ''0xABC'' ''ethereum'' ''keys'' False heap0)) = []"
  using C5_empty_password [where E = "sample_env None [] (HashPasswordIteratively_spec
          (fresh_hash [0xAA, 0xBB, 0xCC] 3 [0x11, 0x22] None)) (\<lambda>t. (Some 5, Some 6, None))"
      and kdf = "fresh_hash [0xAA, 0xBB, 0xCC] 3 [0x11, 0x22] None"
      and path = "''keys''" and addr = "''0xABC''" and chainType = "''ethereum''" and h = heap0
      and pswd = "\<lparr>s_ptr = 1, s_len = 0, s_cap = 0\<rparr>"
      and ?h1.0 = "\<lparr>mem = (\<lambda>_. 0), brk = 1\<rparr>"]
  by (simp add: sample_env_def alloc_def heap0_def)


text \<open>
  C6. With \<open>insecure = true\<close> the call is exactly the call of
  \<open>insecureKeypairFromAddress(path, chainType)\<close>: same results, same heap, and no other
  call is made (no stat, no password prompt, no key file read). With \<open>insecure = false\<close>
  the fixture provider is never called, and the run does not depend on it.
\<close>

theorem C6_insecure_path:
  "KeypairFromAddress E addr chainType path True h =
     (case insecureKeypairFromAddress E path chainType h of
        ((kp, key, err), h1) \<Rightarrow>
          (Return kp key err, h1, [Call_insecureKeypairFromAddress path chainType]))
   \<and> (\<forall>p c. Call_insecureKeypairFromAddress p c
          \<notin> set (calls_of (KeypairFromAddress E addr chainType path False h)))
   \<and> KeypairFromAddress (E\<lparr>insecureKeypairFromAddress := f\<rparr>) addr chainType path False h =
       KeypairFromAddress E addr chainType path False h"
  by (auto simp: KeypairFromAddress_def calls_of_def Let_def is_nil_def nil_slice_def
      split: prod.splits option.splits)

text \<open>
  C7. Claim: a call with a chain type that has no entry in \<open>keyMapping\<close> fails with
  UnsupportedKeyType and never returns a usable keypair. \<open>KeypairFromAddress\<close> does not
  test the chain type: for "bitcoin" the lookup at line 81 yields the empty string, and
  the run prompts, derives and calls \<open>ReadFromFileAndDecrypt\<close> with that key type. With
  the decryption of the specification, which rejects the tag with (nil, nil,
  UnsupportedKeyType), the error branch then calls \<open>DeleteKeyPair\<close> on the nil keypair
  (line 87): the call faults and UnsupportedKeyType is not returned.
\<close>

theorem C7_unregistered_chain_type_faults:
  "map_index keyMapping ''bitcoin'' = []
   \<and> calls_of (KeypairFromAddress
        (sample_ok\<lparr>ReadFromFileAndDecrypt :=
           ReadFromFileAndDecrypt_spec (ReadFromFileAndDecrypt sample_ok)\<rparr>)
        ''0xABC'' ''bitcoin'' ''keys'' False heap0) =
       [Call_Stat ''keys/0xABC.key'',
        Call_GetPassword ''Enter password for key keys/0xABC.key:'',
        Call_HashPasswordIteratively [0x70, 0x77],
        Call_ReadFromFileAndDecrypt ''keys/0xABC.key'' [0xAA, 0xBB, 0xCC, 0x11, 0x22] []]
   \<and> fst (ReadFromFileAndDecrypt_spec (ReadFromFileAndDecrypt sample_ok)
         ''keys/0xABC.key'' \<lparr>s_ptr = 8, s_len = 5, s_cap = 5\<rparr> [] heap0) =
       (None, None, Some UnsupportedKeyType)
   \<and> outcome_of (KeypairFromAddress
        (sample_ok\<lparr>ReadFromFileAndDecrypt :=
           ReadFromFileAndDecrypt_spec (ReadFromFileAndDecrypt sample_ok)\<rparr>)
        ''0xABC'' ''bitcoin'' ''keys'' False heap0) = PanicNilDereference
   \<and> outcome_of (KeypairFromAddress
        (sample_ok\<lparr>ReadFromFileAndDecrypt :=
           ReadFromFileAndDecrypt_spec (ReadFromFileAndDecrypt sample_ok)\<rparr>)
        ''0xABC'' ''ethereum'' ''keys'' False heap0) = Return (Some 5) (Some 6) None"
  by (simp add: KeypairFromAddress_def sample_ok_def sample_env_def fresh_hash_def heap0_def
      alloc_def outcome_of_def calls_of_def zero_slice_def append_slice_def read_slice_def
      nil_slice_def is_nil_def Let_def keyMapping_def map_index_def upt_rec
      ReadFromFileAndDecrypt_spec_def)

text \<open>
  C8. When \<open>HashPasswordIteratively\<close> returns an error, the call returns nil, nil and
  that same error, the hash buffer and the salt buffer it returned hold only zero bytes
  in the heap the call leaves, and \<open>ReadFromFileAndDecrypt\<close> is not called.
\<close>

theorem C8_hash_error:
  assumes "\<not> IsNotExist (Stat E (path @ ''/'' @ addr @ ''.key''))"
    and "GetPassword E (''Enter password for key '' @ path @ ''/'' @ addr @ ''.key'' @ '':'') h
           = (pswd, h1)"
    and "HashPasswordIteratively E pswd h1 = ((hshPwd, salt, Some e), h2)"
  shows "outcome_of (KeypairFromAddress E addr chainType path False h) = Return None None (Some e)
     \<and> all_zero (heap_of (KeypairFromAddress E addr chainType path False h)) hshPwd
     \<and> all_zero (heap_of (KeypairFromAddress E addr chainType path False h)) salt
     \<and> filter is_decrypt (calls_of (KeypairFromAddress E addr chainType path False h)) = []"
proof -
  have run: "KeypairFromAddress E addr chainType path False h =
      (Return None None (Some e), zero_slice salt (zero_slice hshPwd (zero_slice pswd h2)),
       [Call_Stat (path @ ''/'' @ addr @ ''.key''),
        Call_GetPassword (''Enter password for key '' @ path @ ''/'' @ addr @ ''.key'' @ '':''),
        Call_HashPasswordIteratively (read_slice h1 pswd)])"
    using KeypairFromAddress_secure [OF assms] by (simp add: Let_def)
  have "all_zero (zero_slice salt (zero_slice hshPwd (zero_slice pswd h2))) hshPwd"
    by (intro all_zero_kept all_zero_zero_slice)
  moreover have "all_zero (zero_slice salt (zero_slice hshPwd (zero_slice pswd h2))) salt"
    by (rule all_zero_zero_slice)
  ultimately show ?thesis
    by (simp add: run outcome_of_def heap_of_def calls_of_def)
qed

theorem C8_hash_error_witness:
  "outcome_of (KeypairFromAddress
       (sample_env None [0x70, 0x77]
          (fresh_hash [0xAA, 0xBB] 2 [0x11] (Some (Errorf ''derivation failed'')))
          (\<lambda>t. (Some 5, Some 6, None)))
       ''0xABC'' ''ethereum'' ''keys'' False heap0) =
     Return None None (Some (Errorf ''derivation failed''))
   \<and> all_zero (heap_of (KeypairFromAddress
       (sample_env None [0x70, 0x77]
          (fresh_hash [0xAA, 0xBB] 2 [0x11] (Some (Errorf ''derivation failed'')))
          (\<lambda>t. (Some 5, Some 6, None)))
       ''0xABC'' ''ethereum'' ''keys'' False heap0)) \<lparr>s_ptr = 3, s_len = 2, s_cap = 2\<rparr>
   \<and> all_zero (heap_of (KeypairFromAddress
       (sample_env None [0x70, 0x77]
          (fresh_hash [0xAA, 0xBB] 2 [0x11] (Some (Errorf ''derivation failed'')))
          (\<lambda>t. (Some 5, Some 6, None)))
       ''0xABC'' ''ethereum'' ''keys'' False heap0)) \<lparr>s_ptr = 5, s_len = 1, s_cap = 1\<rparr>
   \<and> filter is_decrypt (calls_of (KeypairFromAddress
       (sample_env None [0x70, 0x77]
          (fresh_hash [0xAA, 0xBB] 2 [0x11] (Some (Errorf ''derivation failed'')))
          (\<lambda>t. (Some 5, Some 6, None)))
       ''0xABC'' ''ethereum'' ''keys'' False heap0)) = []"
  using C8_hash_error [where E = "sample_env None [0x70, 0x77]
          (fresh_hash [0xAA, 0xBB] 2 [0x11] (Some (Errorf ''derivation failed'')))
          (\<lambda>t. (Some 5, Some 6, None))"
      and path = "''keys''" and addr = "''0xABC''" and chainType = "''ethereum''" and h = heap0
      and pswd = "\<lparr>s_ptr = 1, s_len = 2, s_cap = 2\<rparr>"
      and ?h1.0 = "\<lparr>mem = store_bytes 1 [0x70, 0x77] (\<lambda>_. 0), brk = 3\<rparr>"
      and hshPwd = "\<lparr>s_ptr = 3, s_len = 2, s_cap = 2\<rparr>"
      and salt = "\<lparr>s_ptr = 5, s_len = 1, s_cap = 1\<rparr>"
      and e = "Errorf ''derivation failed''"
      and ?h2.0 = "\<lparr>mem = store_bytes 5 [0x11] (store_bytes 3 [0xAA, 0xBB]
                     (store_bytes 1 [0x70, 0x77] (\<lambda>_. 0))), brk = 6\<rparr>"]
  by (simp add: sample_env_def fresh_hash_def alloc_def heap0_def)

text \<open>
  C9. Claim: for every successful derivation the key passed to
  \<open>ReadFromFileAndDecrypt\<close> is the hash followed by the salt. The key is built in
  memory (line 76) and the salt is zeroed after that (lines 77-79), before the call. When
  the hash function returns the hash and the salt as two slices of one array, the hash
  AA BB CC with the salt 11 22 in its spare capacity, \<open>append\<close> extends the hash in
  place over the salt, zeroing the salt zeroes the end of the key, and the key passed is
  AA BB CC 00 00.
\<close>

theorem C9_shared_array_key:
  "fst (HashPasswordIteratively
          (sample_env None [0x70, 0x77] (packed_hash [0xAA, 0xBB, 0xCC] [0x11, 0x22])
             (\<lambda>t. (Some 5, Some 6, None)))
          \<lparr>s_ptr = 1, s_len = 2, s_cap = 2\<rparr>
          \<lparr>mem = store_bytes 1 [0x70, 0x77] (\<lambda>_. 0), brk = 3\<rparr>) =
     (\<lparr>s_ptr = 3, s_len = 3, s_cap = 5\<rparr>, \<lparr>s_ptr = 6, s_len = 2, s_cap = 2\<rparr>, None)
   \<and> read_slice (snd (HashPasswordIteratively
          (sample_env None [0x70, 0x77] (packed_hash [0xAA, 0xBB, 0xCC] [0x11, 0x22])
             (\<lambda>t. (Some 5, Some 6, None)))
          \<lparr>s_ptr = 1, s_len = 2, s_cap = 2\<rparr>
          \<lparr>mem = store_bytes 1 [0x70, 0x77] (\<lambda>_. 0), brk = 3\<rparr>))
        \<lparr>s_ptr = 3, s_len = 3, s_cap = 5\<rparr> = [0xAA, 0xBB, 0xCC]
   \<and> read_slice (snd (HashPasswordIteratively
          (sample_env None [0x70, 0x77] (packed_hash [0xAA, 0xBB, 0xCC] [0x11, 0x22])
             (\<lambda>t. (Some 5, Some 6, None)))
          \<lparr>s_ptr = 1, s_len = 2, s_cap = 2\<rparr>
          \<lparr>mem = store_bytes 1 [0x70, 0x77] (\<lambda>_. 0), brk = 3\<rparr>))
        \<lparr>s_ptr = 6, s_len = 2, s_cap = 2\<rparr> = [0x11, 0x22]
   \<and> filter is_decrypt (calls_of (KeypairFromAddress
          (sample_env None [0x70, 0x77] (packed_hash [0xAA, 0xBB, 0xCC] [0x11, 0x22])
             (\<lambda>t. (Some 5, Some 6, None)))
          ''0xABC'' ''ethereum'' ''keys'' False heap0)) =
       [Call_ReadFromFileAndDecrypt ''keys/0xABC.key'' [0xAA, 0xBB, 0xCC, 0, 0] ''secp256k1'']"
  by (simp add: KeypairFromAddress_def sample_env_def packed_hash_def heap0_def
      alloc_def calls_of_def zero_slice_def append_slice_def read_slice_def
      nil_slice_def is_nil_def Let_def keyMapping_def map_index_def upt_rec)

text \<open>
  C9, as amended. When \<open>HashPasswordIteratively\<close> returns no error and the password,
  the hash and the salt it works on are separate buffers (the password shares no byte
  with the hash or the salt, the salt lies outside the backing array of the hash up to
  its capacity, and in memory allocated before the \<open>append\<close>), \<open>ReadFromFileAndDecrypt\<close>
  is applied once, to the path \<open><path>/<addr>.key\<close>, a key slice that holds the bytes of
  the hash followed by the bytes of the salt, and the key type \<open>keyMapping[chainType]\<close>;
  what the run does is decided by what that application returns.
\<close>

theorem C9_key_material:
  assumes "\<not> IsNotExist (Stat E (path @ ''/'' @ addr @ ''.key''))"
    and "GetPassword E (''Enter password for key '' @ path @ ''/'' @ addr @ ''.key'' @ '':'') h
           = (pswd, h1)"
    and "HashPasswordIteratively E pswd h1 = ((hshPwd, salt, None), h2)"
    and "separate_buffers h2 pswd hshPwd salt"
  shows "filter is_decrypt (calls_of (KeypairFromAddress E addr chainType path False h)) =
           [Call_ReadFromFileAndDecrypt (path @ ''/'' @ addr @ ''.key'')
              (read_slice h2 hshPwd @ read_slice h2 salt) (map_index keyMapping chainType)]
     \<and> (\<exists>k h5.
           read_slice h5 k = read_slice h2 hshPwd @ read_slice h2 salt
         \<and> outcome_of (KeypairFromAddress E addr chainType path False h) =
             (case fst (ReadFromFileAndDecrypt E (path @ ''/'' @ addr @ ''.key'') k
                          (map_index keyMapping chainType) h5) of
                (kp, key, None) \<Rightarrow> Return kp key None
              | (None, key, Some e) \<Rightarrow> PanicNilDereference
              | (Some x, key, Some e) \<Rightarrow> Return None None (Some e)))"
proof -
  obtain k h4 where app: "append_slice hshPwd salt (zero_slice pswd h2) = (k, h4)"
    by (cases "append_slice hshPwd salt (zero_slice pswd h2)")
  have km: "read_slice (zero_slice salt h4) k = read_slice h2 hshPwd @ read_slice h2 salt"
    using key_material [OF assms(4) app] .
  have run: "KeypairFromAddress E addr chainType path False h =
      (case ReadFromFileAndDecrypt E (path @ ''/'' @ addr @ ''.key'') k
              (map_index keyMapping chainType) (zero_slice salt h4) of
         ((kp, key, err1), h6) \<Rightarrow>
           let t4 = [Call_Stat (path @ ''/'' @ addr @ ''.key''),
                     Call_GetPassword
                       (''Enter password for key '' @ path @ ''/'' @ addr @ ''.key'' @ '':''),
                     Call_HashPasswordIteratively (read_slice h1 pswd),
                     Call_ReadFromFileAndDecrypt (path @ ''/'' @ addr @ ''.key'')
                       (read_slice h2 hshPwd @ read_slice h2 salt)
                       (map_index keyMapping chainType)]
           in case err1 of
                Some e \<Rightarrow>
                  (case kp of
                     None \<Rightarrow> (PanicNilDereference, zero_slice k h6, t4)
                   | Some x \<Rightarrow>
                       (Return None None (Some e), DeleteKeyPair E x (zero_slice k h6),
                        t4 @ [Call_DeleteKeyPair]))
              | None \<Rightarrow> (Return kp key None, zero_slice k h6, t4))"
    using KeypairFromAddress_secure [OF assms(1-3), of chainType]
    by (simp add: Let_def app km split: prod.splits option.splits)
  have calls: "filter is_decrypt (calls_of (KeypairFromAddress E addr chainType path False h)) =
           [Call_ReadFromFileAndDecrypt (path @ ''/'' @ addr @ ''.key'')
              (read_slice h2 hshPwd @ read_slice h2 salt) (map_index keyMapping chainType)]"
    by (simp add: run Let_def calls_of_def split: prod.splits option.splits)
  have out: "outcome_of (KeypairFromAddress E addr chainType path False h) =
             (case fst (ReadFromFileAndDecrypt E (path @ ''/'' @ addr @ ''.key'') k
                          (map_index keyMapping chainType) (zero_slice salt h4)) of
                (kp, key, None) \<Rightarrow> Return kp key None
              | (None, key, Some e) \<Rightarrow> PanicNilDereference
              | (Some x, key, Some e) \<Rightarrow> Return None None (Some e))"
    by (simp add: run Let_def outcome_of_def split: prod.splits option.splits)
  from km out have "\<exists>k h5.
           read_slice h5 k = read_slice h2 hshPwd @ read_slice h2 salt
         \<and> outcome_of (KeypairFromAddress E addr chainType path False h) =
             (case fst (ReadFromFileAndDecrypt E (path @ ''/'' @ addr @ ''.key'') k
                          (map_index keyMapping chainType) h5) of
                (kp, key, None) \<Rightarrow> Return kp key None
              | (None, key, Some e) \<Rightarrow> PanicNilDereference
              | (Some x, key, Some e) \<Rightarrow> Return None None (Some e))"
    by blast
  with calls show ?thesis by blast
qed

theorem C9_key_material_witness:
  "separate_buffers
      \<lparr>mem = store_bytes 6 [0x11, 0x22] (store_bytes 3 [0xAA, 0xBB, 0xCC]
                (store_bytes 1 [0x70, 0x77] (\<lambda>_. 0))), brk = 8\<rparr>
      \<lparr>s_ptr = 1, s_len = 2, s_cap = 2\<rparr> \<lparr>s_ptr = 3, s_len = 3, s_cap = 3\<rparr>
      \<lparr>s_ptr = 6, s_len = 2, s_cap = 2\<rparr>
   \<and> filter is_decrypt (calls_of (KeypairFromAddress sample_ok ''0xABC'' ''ethereum'' ''keys''
        False heap0)) =
      [Call_ReadFromFileAndDecrypt ''keys/0xABC.key'' [0xAA, 0xBB, 0xCC, 0x11, 0x22] ''secp256k1'']
   \<and> outcome_of (KeypairFromAddress sample_ok ''0xABC'' ''ethereum'' ''keys'' False heap0) =
      Return (Some 5) (Some 6) None"
  using C9_key_material [where E = sample_ok
      and path = "''keys''" and addr = "''0xABC''" and chainType = "''ethereum''" and h = heap0
      and pswd = "\<lparr>s_ptr = 1, s_len = 2, s_cap = 2\<rparr>"
      and ?h1.0 = "\<lparr>mem = store_bytes 1 [0x70, 0x77] (\<lambda>_. 0), brk = 3\<rparr>"
      and hshPwd = "\<lparr>s_ptr = 3, s_len = 3, s_cap = 3\<rparr>"
      and salt = "\<lparr>s_ptr = 6, s_len = 2, s_cap = 2\<rparr>"
      and ?h2.0 = "\<lparr>mem = store_bytes 6 [0x11, 0x22] (store_bytes 3 [0xAA, 0xBB, 0xCC]
                     (store_bytes 1 [0x70, 0x77] (\<lambda>_. 0))), brk = 8\<rparr>"]
  by (simp add: sample_ok_def sample_env_def fresh_hash_def alloc_def heap0_def
      separate_buffers_def bytes_apart_def read_slice_def upt_rec map_index_def keyMapping_def)



end
